theory Spec2Isabelle
  imports Complex_Main "HOL-Library.Sublist"
begin

section \<open>Candidate generation\<close>

text \<open>
  The three engine classes (\<open>Autocorrection\<close>, \<open>HybridAutocorrection\<close>,
  \<open>EnhancedAutocorrection\<close>) carry textually identical copies of \<open>edit1\<close>,
  \<open>edit2\<close>, \<open>common_prefix_length\<close> and \<open>custom_score\<close>; each is embedded once.

  A Python \<open>str\<close> is a \<open>string\<close>, one \<open>char\<close> per character. Python integers are
  \<open>int\<close>; \<open>len\<close> is the length as an \<open>int\<close>, so that \<open>len(w) - 1\<close> is \<open>-1\<close> on the
  empty word, as in the source.
\<close>

definition len :: "'a list \<Rightarrow> int" where
  "len xs = int (length xs)"

text \<open>\<open>string.ascii_lowercase\<close>.\<close>

definition letter :: string where
  "letter = ''abcdefghijklmnopqrstuvwxyz''"

text \<open>\<open>[(word[:i], word[i:]) for i in range(len(word) + 1)]\<close>\<close>

definition splits :: "string \<Rightarrow> (string \<times> string) list" where
  "splits word = [(take i word, drop i word). i \<leftarrow> [0 ..< length word + 1]]"

definition edit1_insert :: "string \<Rightarrow> string list" where
  "edit1_insert word = [l @ [c] @ r. (l, r) \<leftarrow> splits word, c \<leftarrow> letter]"

definition edit1_delete :: "string \<Rightarrow> string list" where
  "edit1_delete word = [l @ drop 1 r. (l, r) \<leftarrow> splits word, r \<noteq> []]"

definition edit1_replace :: "string \<Rightarrow> string list" where
  "edit1_replace word = [l @ [c] @ drop 1 r. (l, r) \<leftarrow> splits word, r \<noteq> [], c \<leftarrow> letter]"

text \<open>The guard \<open>len(r) > 1\<close> keeps \<open>r[1]\<close> and \<open>r[0]\<close> in range.\<close>

definition edit1_swap :: "string \<Rightarrow> string list" where
  "edit1_swap word = [l @ [r ! 1] @ [r ! 0] @ drop 2 r. (l, r) \<leftarrow> splits word, 1 < length r]"

text \<open>
  \<open>edit1\<close> returns a Python \<open>set\<close>. A Python set is embedded as a duplicate-free list:
  membership and size are those of the set, and the order of the list stands for the
  iteration order, which Python leaves unspecified. No theorem below depends on it.
\<close>

definition edit1 :: "string \<Rightarrow> string list" where
  "edit1 word =
     remdups (edit1_replace word @ edit1_insert word @ edit1_delete word @ edit1_swap word)"

text \<open>\<open>[e2 for e1 in self.edit1(word) for e2 in self.edit1(e1)]\<close>, a list, not deduplicated.\<close>

definition edit2 :: "string \<Rightarrow> string list" where
  "edit2 word = [e2. e1 \<leftarrow> edit1 word, e2 \<leftarrow> edit1 e1]"

text \<open>\<open>self.edit1(word).union(self.edit2(word))\<close>, again a set.\<close>

definition suggestions_of :: "string \<Rightarrow> string list" where
  "suggestions_of word = remdups (edit1 word @ edit2 word)"

section \<open>Structural score\<close>

text \<open>The loop over \<open>zip(word1, word2)\<close> counts matching positions and stops at the first mismatch.\<close>

fun common_prefix_length :: "string \<Rightarrow> string \<Rightarrow> int" where
  "common_prefix_length (c1 # word1) (c2 # word2) =
     (if c1 = c2 then 1 + common_prefix_length word1 word2 else 0)"
| "common_prefix_length _ _ = 0"

text \<open>
  \<open>editdistance.eval\<close> belongs to the external \<open>editdistance\<close> package, which computes
  the Levenshtein distance (unit-cost insertion, deletion and substitution). It is
  embedded by the textbook recursion.
\<close>

fun levenshtein :: "string \<Rightarrow> string \<Rightarrow> nat" where
  "levenshtein [] ys = length ys"
| "levenshtein xs [] = length xs"
| "levenshtein (x # xs) (y # ys) =
     min (min (levenshtein xs (y # ys) + 1) (levenshtein (x # xs) ys + 1))
         (levenshtein xs ys + (if x = y then 0 else 1))"

definition editdistance_eval :: "string \<Rightarrow> string \<Rightarrow> int" where
  "editdistance_eval a b = int (levenshtein a b)"

definition custom_score :: "string \<Rightarrow> string \<Rightarrow> int" where
  "custom_score suggestion original_word =
     (let replace_weight = 1; insert_weight = 2; delete_weight = 3; swap_weight = 4;
          distance = editdistance_eval suggestion original_word
      in if len suggestion = len original_word then
           distance * replace_weight
             + (len original_word - common_prefix_length suggestion original_word)
         else if len suggestion = len original_word + 1 then
           distance * insert_weight
             + (len original_word - common_prefix_length suggestion original_word)
         else if len suggestion = len original_word - 1 then
           distance * delete_weight
         else
           distance * swap_weight)"

section \<open>Numbers\<close>

text \<open>
  Python and NumPy floats are embedded as real numbers extended by the two infinities
  and NaN, which \<open>np.log\<close> produces at \<open>0\<close> and below it. Rounding is not modelled.
\<close>

datatype npfloat = Fin real | PInf | NInf | NaN

definition np_log :: "real \<Rightarrow> npfloat" where
  "np_log x = (if 0 < x then Fin (ln x) else if x = 0 then NInf else NaN)"

fun np_neg :: "npfloat \<Rightarrow> npfloat" where
  "np_neg (Fin x) = Fin (- x)"
| "np_neg PInf = NInf"
| "np_neg NInf = PInf"
| "np_neg NaN = NaN"

fun np_add :: "npfloat \<Rightarrow> npfloat \<Rightarrow> npfloat" where
  "np_add (Fin x) (Fin y) = Fin (x + y)"
| "np_add NaN _ = NaN"
| "np_add _ NaN = NaN"
| "np_add PInf NInf = NaN"
| "np_add NInf PInf = NaN"
| "np_add PInf _ = PInf"
| "np_add _ PInf = PInf"
| "np_add NInf _ = NInf"
| "np_add _ NInf = NInf"

text \<open>Every product in the source has a literal constant as one factor.\<close>

fun np_scale :: "real \<Rightarrow> npfloat \<Rightarrow> npfloat" where
  "np_scale c (Fin x) = Fin (c * x)"
| "np_scale c PInf = (if 0 < c then PInf else if c < 0 then NInf else NaN)"
| "np_scale c NInf = (if 0 < c then NInf else if c < 0 then PInf else NaN)"
| "np_scale c NaN = NaN"

fun np_lt :: "npfloat \<Rightarrow> npfloat \<Rightarrow> bool" where
  "np_lt (Fin x) (Fin y) = (x < y)"
| "np_lt NaN _ = False"
| "np_lt _ NaN = False"
| "np_lt _ NInf = False"
| "np_lt PInf _ = False"
| "np_lt NInf _ = True"
| "np_lt _ PInf = True"

fun np_abs :: "npfloat \<Rightarrow> npfloat" where
  "np_abs (Fin x) = Fin \<bar>x\<bar>"
| "np_abs PInf = PInf"
| "np_abs NInf = PInf"
| "np_abs NaN = NaN"

text \<open>
  \<open>list.sort(key=f)\<close> is stable and compares keys with \<open><\<close> only. On keys that are
  totally ordered it is the stable insertion sort below.
\<close>

fun insort_by :: "('a \<Rightarrow> npfloat) \<Rightarrow> 'a \<Rightarrow> 'a list \<Rightarrow> 'a list" where
  "insort_by key x [] = [x]"
| "insort_by key x (y # ys) =
     (if np_lt (key y) (key x) then y # insort_by key x ys else x # y # ys)"

definition list_sort :: "('a \<Rightarrow> npfloat) \<Rightarrow> 'a list \<Rightarrow> 'a list" where
  "list_sort key xs = foldr (insort_by key) xs []"

section \<open>Engine state\<close>

datatype error = KeyError

text \<open>\<open>d.get(k, default)\<close> and \<open>d[k]\<close>.\<close>

definition dict_get :: "('k \<rightharpoonup> 'v) \<Rightarrow> 'k \<Rightarrow> 'v \<Rightarrow> 'v" where
  "dict_get d k dflt = (case d k of None \<Rightarrow> dflt | Some v \<Rightarrow> v)"

definition dict_item :: "('k \<rightharpoonup> 'v) \<Rightarrow> 'k \<Rightarrow> error + 'v" where
  "dict_item d k = (case d k of None \<Rightarrow> Inl KeyError | Some v \<Rightarrow> Inr v)"

text \<open>A list comprehension whose element expression may raise stops at the first error.\<close>

fun comprehension :: "('a \<Rightarrow> error + 'b) \<Rightarrow> 'a list \<Rightarrow> error + 'b list" where
  "comprehension f [] = Inr []"
| "comprehension f (x # xs) =
     (case f x of Inl e \<Rightarrow> Inl e
      | Inr y \<Rightarrow> (case comprehension f xs of Inl e \<Rightarrow> Inl e | Inr ys \<Rightarrow> Inr (y # ys)))"

text \<open>
  \<open>str.lower()\<close>, on the ASCII letters. (Python also lowers letters beyond ASCII; tokens
  here are ASCII.)
\<close>

definition lower_char :: "char \<Rightarrow> char" where
  "lower_char c =
     (let n = (of_char c :: nat) in if 65 \<le> n \<and> n \<le> 90 then char_of (n + 32) else c)"

definition lower :: "string \<Rightarrow> string" where
  "lower w = map lower_char w"

text \<open>The entry \<open>{'accepted': a, 'rejected': r}\<close>: both counters start at 0 and are only incremented.\<close>

record feedback =
  accepted :: nat
  rejected :: nat

text \<open>
  The fields of \<open>Autocorrection\<close>; \<open>HybridAutocorrection\<close> has these and three more that
  the claims use; \<open>EnhancedAutocorrection\<close> has those and the shortcut table and the
  SymSpell dictionary. The fields \<open>counts_of_word\<close>, \<open>total_words\<close>, \<open>bigrams\<close>, ... are
  read only while the probabilities are built and by \<open>get_corpus_stats\<close>; they are
  local values here.

  \<open>SymSpell\<close> is an external package. The engine reads it in two ways: membership in
  \<open>sym_spell._words\<close>, and \<open>sym_spell.lookup(word, Verbosity.CLOSEST,
  max_edit_distance=2, include_unknown=True)\<close>, a list of items with a \<open>term\<close> and a
  \<open>count\<close>. Both are fields of the state.
\<close>

record autocorrection =
  vocabulary :: "string set"
  prob_of_word :: "string \<rightharpoonup> real"
  prob_of_bigram :: "string \<times> string \<rightharpoonup> real"

record hybrid_autocorrection = autocorrection +
  prob_of_trigram :: "string \<times> string \<times> string \<rightharpoonup> real"
  custom_words :: "string set"
  user_feedback :: "string \<rightharpoonup> (string \<rightharpoonup> feedback)"

record enhanced_autocorrection = hybrid_autocorrection +
  shortcuts :: "string \<rightharpoonup> string"
  sym_words :: "string set"
  sym_lookup :: "string \<Rightarrow> (string \<times> int) list"

subsection \<open>Building the models\<close>

text \<open>
  \<open>Counter(xs)\<close> maps each distinct element to \<open>count_list xs\<close> of it; the total is the
  sum of the counts over the distinct keys; the probability of a key is its count over
  the total. The comprehension runs over the keys only, so nothing is divided on an
  empty stream.
\<close>

definition total_count :: "'a list \<Rightarrow> real" where
  "total_count xs = real (sum_list [count_list xs w. w \<leftarrow> remdups xs])"

definition probabilities :: "'a list \<Rightarrow> ('a \<rightharpoonup> real)" where
  "probabilities xs =
     (\<lambda>w. if w \<in> set xs then Some (real (count_list xs w) / total_count xs) else None)"

text \<open>\<open>nltk.bigrams\<close> and \<open>nltk.trigrams\<close>: the windows of 2 and 3 consecutive tokens.\<close>

definition bigrams :: "'a list \<Rightarrow> ('a \<times> 'a) list" where
  "bigrams xs = zip xs (drop 1 xs)"

definition trigrams :: "'a list \<Rightarrow> ('a \<times> 'a \<times> 'a) list" where
  "trigrams xs = zip xs (zip (drop 1 xs) (drop 2 xs))"

text \<open>\<open>Autocorrection.__init__\<close>, from the token list read from the corpus file.\<close>

definition autocorrection_init :: "string list \<Rightarrow> autocorrection" where
  "autocorrection_init word =
     \<lparr>vocabulary = set word,
      prob_of_word = probabilities word,
      prob_of_bigram = probabilities (bigrams word)\<rparr>"

definition build_vocabulary ::
  "'a hybrid_autocorrection_scheme \<Rightarrow> string list \<Rightarrow> 'a hybrid_autocorrection_scheme" where
  "build_vocabulary s all_words =
     s\<lparr>vocabulary := set all_words \<union> custom_words s,
       prob_of_word := probabilities all_words,
       prob_of_bigram := probabilities (bigrams all_words),
       prob_of_trigram := probabilities (trigrams all_words)\<rparr>"

text \<open>
  \<open>load_custom_words\<close> and \<open>load_shortcuts\<close> replace the fields by the content of the
  file when it exists and parses (\<open>Some\<close>) and leave them alone otherwise.
\<close>

definition load_custom_words ::
  "'a hybrid_autocorrection_scheme \<Rightarrow> (string set \<times> (string \<rightharpoonup> (string \<rightharpoonup> feedback))) option
     \<Rightarrow> 'a hybrid_autocorrection_scheme" where
  "load_custom_words s file =
     (case file of None \<Rightarrow> s
      | Some (ws, fb) \<Rightarrow> s\<lparr>custom_words := ws, user_feedback := fb\<rparr>)"

definition load_shortcuts ::
  "'a enhanced_autocorrection_scheme \<Rightarrow> (string \<rightharpoonup> string) option
     \<Rightarrow> 'a enhanced_autocorrection_scheme" where
  "load_shortcuts s file = (case file of None \<Rightarrow> s | Some m \<Rightarrow> s\<lparr>shortcuts := m\<rparr>)"

text \<open>\<open>HybridAutocorrection.__init__\<close>: empty fields, the models, then the saved custom words.\<close>

definition hybrid_init ::
  "string list \<Rightarrow> (string set \<times> (string \<rightharpoonup> (string \<rightharpoonup> feedback))) option
     \<Rightarrow> hybrid_autocorrection" where
  "hybrid_init all_words custom_file =
     load_custom_words
       (build_vocabulary
          \<lparr>vocabulary = {}, prob_of_word = Map.empty, prob_of_bigram = Map.empty,
           prob_of_trigram = Map.empty, custom_words = {}, user_feedback = Map.empty\<rparr>
          all_words)
       custom_file"

text \<open>\<open>EnhancedAutocorrection.__init__\<close>, with the SymSpell dictionary it loaded.\<close>

definition enhanced_init ::
  "string set \<Rightarrow> (string \<Rightarrow> (string \<times> int) list) \<Rightarrow> string list
     \<Rightarrow> (string set \<times> (string \<rightharpoonup> (string \<rightharpoonup> feedback))) option
     \<Rightarrow> (string \<rightharpoonup> string) option \<Rightarrow> enhanced_autocorrection" where
  "enhanced_init words lookup all_words custom_file shortcut_file =
     load_shortcuts
       (load_custom_words
          (build_vocabulary
             \<lparr>vocabulary = {}, prob_of_word = Map.empty, prob_of_bigram = Map.empty,
              prob_of_trigram = Map.empty, custom_words = {}, user_feedback = Map.empty,
              shortcuts = Map.empty, sym_words = words, sym_lookup = lookup\<rparr>
             all_words)
          custom_file)
       shortcut_file"

subsection \<open>Mutators\<close>

text \<open>
  Printing and the rewriting of \<open>custom_words.json\<close> and \<open>shortcuts.json\<close> (whose
  failures the source catches and reports) do not touch the in-memory state and are
  left out.
\<close>

definition add_custom_word ::
  "'a hybrid_autocorrection_scheme \<Rightarrow> string \<Rightarrow> 'a hybrid_autocorrection_scheme" where
  "add_custom_word s word =
     (let word = lower word
      in s\<lparr>custom_words := insert word (custom_words s),
           vocabulary := insert word (vocabulary s),
           prob_of_word := (prob_of_word s)(word \<mapsto> 0.001)\<rparr>)"

definition add_shortcut ::
  "'a enhanced_autocorrection_scheme \<Rightarrow> string \<Rightarrow> string \<Rightarrow> 'a enhanced_autocorrection_scheme" where
  "add_shortcut s shortcut full_word =
     (let shortcut = lower shortcut;
          full_word = lower full_word;
          s1 = s\<lparr>shortcuts := (shortcuts s)(shortcut \<mapsto> full_word)\<rparr>
      in if full_word \<notin> vocabulary s1 then add_custom_word s1 full_word else s1)"

text \<open>The result pairs the returned \<open>bool\<close> with the state after the call.\<close>

definition remove_shortcut ::
  "'a enhanced_autocorrection_scheme \<Rightarrow> string \<Rightarrow> bool \<times> 'a enhanced_autocorrection_scheme" where
  "remove_shortcut s shortcut =
     (let shortcut = lower shortcut
      in if shortcut \<in> dom (shortcuts s)
         then (True, s\<lparr>shortcuts := (shortcuts s)(shortcut := None)\<rparr>)
         else (False, s))"

definition get_shortcut_expansion :: "'a enhanced_autocorrection_scheme \<Rightarrow> string \<Rightarrow> string option" where
  "get_shortcut_expansion s word = shortcuts s (lower word)"

definition is_shortcut :: "'a enhanced_autocorrection_scheme \<Rightarrow> string \<Rightarrow> bool" where
  "is_shortcut s word = (lower word \<in> dom (shortcuts s))"

definition record_user_feedback ::
  "'a hybrid_autocorrection_scheme \<Rightarrow> string \<Rightarrow> string \<Rightarrow> bool \<Rightarrow> 'a hybrid_autocorrection_scheme" where
  "record_user_feedback s original_word suggested_word was_accepted =
     (let per_word = (case user_feedback s original_word of None \<Rightarrow> Map.empty | Some m \<Rightarrow> m);
          entry = (case per_word suggested_word of
                     None \<Rightarrow> \<lparr>accepted = 0, rejected = 0\<rparr> | Some e \<Rightarrow> e);
          entry = (if was_accepted then entry\<lparr>accepted := accepted entry + 1\<rparr>
                   else entry\<lparr>rejected := rejected entry + 1\<rparr>)
      in s\<lparr>user_feedback := (user_feedback s)(original_word \<mapsto> per_word(suggested_word \<mapsto> entry))\<rparr>)"

section \<open>Scoring\<close>

definition combined_score :: "'a autocorrection_scheme \<Rightarrow> string \<Rightarrow> string \<Rightarrow> npfloat" where
  "combined_score s suggestion original_word =
     (let edit_score = custom_score suggestion original_word;
          prob_score = np_neg (np_log (dict_get (prob_of_word s) suggestion (1 / 10 ^ 9)))
      in np_add (Fin (of_int edit_score)) prob_score)"

text \<open>The key function \<open>context_score\<close> local to \<open>Autocorrection.correct_spelling_with_context\<close>.\<close>

definition context_score :: "'a autocorrection_scheme \<Rightarrow> string \<Rightarrow> string \<Rightarrow> string \<Rightarrow> npfloat" where
  "context_score s previous_word word w =
     (let edit_score = combined_score s w word;
          unigram_score = np_neg (np_log (dict_get (prob_of_word s) w (1 / 10 ^ 9)));
          bigram_score =
            (if previous_word \<noteq> []
             then np_neg (np_log (dict_get (prob_of_bigram s) (previous_word, w) (1 / 10 ^ 9)))
             else Fin 0)
      in np_add (np_add edit_score unigram_score) (np_scale 10 bigram_score))"

text \<open>\<open>accepted / total\<close>, Python's true division; the caller has checked \<open>total > 0\<close>.\<close>

definition acceptance_rate :: "feedback \<Rightarrow> real" where
  "acceptance_rate fb = real (accepted fb) / real (accepted fb + rejected fb)"

text \<open>
  The block under \<open># User feedback score\<close>, the same in \<open>context_aware_score\<close> and
  \<open>enhanced_context_score\<close>: the value of the local \<open>feedback_score\<close> at its end.
\<close>

definition feedback_score :: "'a hybrid_autocorrection_scheme \<Rightarrow> string \<Rightarrow> string \<Rightarrow> npfloat" where
  "feedback_score s original_word suggestion =
     (case user_feedback s original_word of
        None \<Rightarrow> Fin 0
      | Some per_word \<Rightarrow>
          (case per_word suggestion of
             None \<Rightarrow> Fin 0
           | Some fb \<Rightarrow>
               (let total = accepted fb + rejected fb
                in if 0 < total
                   then np_scale 1.5 (np_neg (np_log (1 - acceptance_rate fb)))
                   else Fin 0)))"

text \<open>The block under \<open># Custom word bonus\<close>, again the same in both functions.\<close>

definition custom_bonus :: "'a hybrid_autocorrection_scheme \<Rightarrow> string \<Rightarrow> npfloat" where
  "custom_bonus s suggestion = (if suggestion \<in> custom_words s then Fin (- 3) else Fin 0)"

text \<open>
  The running sum \<open>context_score\<close> of both functions after the bigram and the trigram
  block. The two copies differ in the two weights only, which are parameters here.
  \<open>previous_words[-1]\<close> and \<open>previous_words[-2]\<close> are read only under the length guards.
\<close>

definition ngram_score ::
  "'a hybrid_autocorrection_scheme \<Rightarrow> real \<Rightarrow> real \<Rightarrow> string \<Rightarrow> string list \<Rightarrow> npfloat" where
  "ngram_score s bigram_weight trigram_weight suggestion previous_words =
     (let context_score = Fin 0;
          context_score =
            (if 1 \<le> length previous_words
             then np_add context_score
                    (np_scale bigram_weight
                      (np_neg (np_log (dict_get (prob_of_bigram s)
                         (last previous_words, suggestion) (1 / 10 ^ 9)))))
             else context_score);
          context_score =
            (if 2 \<le> length previous_words
             then np_add context_score
                    (np_scale trigram_weight
                      (np_neg (np_log (dict_get (prob_of_trigram s)
                         (previous_words ! (length previous_words - 2), last previous_words,
                          suggestion) (1 / 10 ^ 9)))))
             else context_score)
      in context_score)"

text \<open>\<open>HybridAutocorrection.context_aware_score\<close>: bigram weight 2, trigram weight 3.\<close>

definition context_aware_score ::
  "'a hybrid_autocorrection_scheme \<Rightarrow> string \<Rightarrow> string \<Rightarrow> string list \<Rightarrow> npfloat" where
  "context_aware_score s suggestion original_word previous_words =
     (let base_score = combined_score s suggestion original_word;
          context_score = ngram_score s 2 3 suggestion previous_words
      in np_add (np_add (np_add base_score context_score)
                   (feedback_score s original_word suggestion))
           (custom_bonus s suggestion))"

text \<open>\<open>EnhancedAutocorrection.enhanced_context_score\<close>: doubled base, weights 0.5 and 1.0.\<close>

definition enhanced_context_score ::
  "'a hybrid_autocorrection_scheme \<Rightarrow> string \<Rightarrow> string \<Rightarrow> string list \<Rightarrow> npfloat" where
  "enhanced_context_score s suggestion original_word previous_words =
     (let base_score = np_scale 2 (combined_score s suggestion original_word);
          context_score = ngram_score s 0.5 1.0 suggestion previous_words
      in np_add (np_add (np_add base_score context_score)
                   (feedback_score s original_word suggestion))
           (custom_bonus s suggestion))"

definition get_context_probability ::
  "'a hybrid_autocorrection_scheme \<Rightarrow> string \<Rightarrow> string list \<Rightarrow> real" where
  "get_context_probability s word previous_words =
     (let bigram_fallback =
            (if 1 \<le> length previous_words
             then dict_get (prob_of_bigram s) (last previous_words, word) 0
             else 0)
      in if 2 \<le> length previous_words
         then (let trigram_prob =
                     dict_get (prob_of_trigram s)
                       (previous_words ! (length previous_words - 2), last previous_words, word) 0
               in if 0 < trigram_prob then trigram_prob else bigram_fallback)
         else bigram_fallback)"

section \<open>Correction\<close>

text \<open>
  The tuples the correction functions return: \<open>(word, probability)\<close>,
  \<open>(word, probability, context probability)\<close>, and the same with a source label.
  The integers \<open>0\<close> of the source's \<open>(word, 0, 0)\<close> are the real \<open>0\<close>.
\<close>

datatype suggestion =
    Tuple2 string real
  | Tuple3 string real real
  | Tuple4 string real real string

text \<open>\<open>[w for w in suggestions if w in self.vocabulary]\<close>\<close>

definition best_guesses_of :: "'a autocorrection_scheme \<Rightarrow> string \<Rightarrow> string list" where
  "best_guesses_of s word = [w \<leftarrow> suggestions_of word. w \<in> vocabulary s]"

text \<open>
  \<open>Autocorrection.correct_spelling\<close>. On a vocabulary word it prints a message and
  returns nothing: the result is Python's \<open>None\<close>, here \<open>Inr None\<close>.
\<close>

definition correct_spelling :: "'a autocorrection_scheme \<Rightarrow> string \<Rightarrow> error + suggestion list option" where
  "correct_spelling s word =
     (if word \<in> vocabulary s then Inr None
      else
        (let best_guesses = best_guesses_of s word
         in if best_guesses = [] then Inr (Some [Tuple3 word 0 0])
            else
              (let best_guesses = list_sort (\<lambda>w. combined_score s w word) best_guesses
               in case comprehension
                         (\<lambda>w. case dict_item (prob_of_word s) w of
                                 Inl e \<Rightarrow> Inl e | Inr p \<Rightarrow> Inr (Tuple2 w p))
                         best_guesses of
                    Inl e \<Rightarrow> Inl e
                  | Inr r \<Rightarrow> Inr (Some r))))"

definition correct_spelling_with_context ::
  "'a autocorrection_scheme \<Rightarrow> string \<Rightarrow> string \<Rightarrow> error + suggestion list" where
  "correct_spelling_with_context s previous_word word =
     (if word \<in> vocabulary s then
        (case dict_item (prob_of_word s) word of
           Inl e \<Rightarrow> Inl e
         | Inr p \<Rightarrow> Inr [Tuple3 word p (dict_get (prob_of_bigram s) (previous_word, word) 0)])
      else
        (let best_guesses = best_guesses_of s word
         in if best_guesses = [] then Inr [Tuple3 word 0 0]
            else
              (let best_guesses = list_sort (context_score s previous_word word) best_guesses
               in comprehension
                    (\<lambda>w. case dict_item (prob_of_word s) w of
                            Inl e \<Rightarrow> Inl e
                          | Inr p \<Rightarrow>
                              Inr (Tuple3 w p (dict_get (prob_of_bigram s) (previous_word, w) 0)))
                    best_guesses)))"

definition context_words :: "string set" where
  "context_words =
     {''there'', ''their'', ''they'' @ [CHR 0x27] @ ''re'',
      ''your'', ''you'' @ [CHR 0x27] @ ''re'',
      ''its'', ''it'' @ [CHR 0x27] @ ''s'',
      ''to'', ''too'', ''two'',
      ''where'', ''wear'', ''were'',
      ''here'', ''hear'',
      ''right'', ''write'',
      ''know'', ''no'',
      ''new'', ''knew''}"

definition should_use_context :: "string \<Rightarrow> string list \<Rightarrow> bool" where
  "should_use_context word previous_words =
     (lower word \<in> context_words \<and> 1 \<le> length previous_words)"

definition correct_spelling_hybrid ::
  "'a hybrid_autocorrection_scheme \<Rightarrow> string list \<Rightarrow> string \<Rightarrow> error + suggestion list" where
  "correct_spelling_hybrid s previous_words word =
     (if word \<in> vocabulary s then
        (case dict_item (prob_of_word s) word of
           Inl e \<Rightarrow> Inl e
         | Inr p \<Rightarrow> Inr [Tuple3 word p 1])
      else
        (let best_guesses = best_guesses_of s word
         in if best_guesses = [] then Inr [Tuple3 word 0 0]
            else
              (let best_guesses =
                     (if should_use_context word previous_words
                      then list_sort (\<lambda>w. context_aware_score s w word previous_words) best_guesses
                      else list_sort (\<lambda>w. combined_score s w word) best_guesses)
               in comprehension
                    (\<lambda>w. case dict_item (prob_of_word s) w of
                            Inl e \<Rightarrow> Inl e
                          | Inr p \<Rightarrow>
                              Inr (Tuple3 w p (get_context_probability s w previous_words)))
                    (take 5 best_guesses))))"

text \<open>
  \<open>EnhancedAutocorrection.correct_spelling_enhanced\<close>. The test \<open>if shortcut_expansion:\<close>
  is Python truthiness: it fails on \<open>None\<close> and on the empty string.
\<close>

definition correct_spelling_enhanced ::
  "'a enhanced_autocorrection_scheme \<Rightarrow> string list \<Rightarrow> string \<Rightarrow> suggestion list" where
  "correct_spelling_enhanced s previous_words word =
     (let after_shortcut_check =
            (if word \<in> sym_words s then [Tuple4 word 1 1 ''SymSpellPy'']
             else
               (let symspell_suggestions = sym_lookup s word
                in if symspell_suggestions \<noteq> []
                   then [Tuple4 sug_word (of_int prob) 1 ''SymSpellPy''.
                           (sug_word, prob) \<leftarrow> take 5 symspell_suggestions]
                   else [Tuple4 word 0 0 ''No suggestion'']))
      in case get_shortcut_expansion s word of
           None \<Rightarrow> after_shortcut_check
         | Some shortcut_expansion \<Rightarrow>
             if shortcut_expansion \<noteq> []
             then [Tuple4 shortcut_expansion 1 1 ''Shortcut expansion'']
             else after_shortcut_check)"

section \<open>Specification-level notions\<close>


text \<open>Every vocabulary word has a stored probability, so \<open>self.prob_of_word[w]\<close> cannot raise.\<close>

definition vocabulary_has_probs :: "'a autocorrection_scheme \<Rightarrow> bool" where
  "vocabulary_has_probs s = (vocabulary s \<subseteq> dom (prob_of_word s))"

text \<open>No stored trigram probability is negative.\<close>

definition trigram_probs_nonneg :: "'a hybrid_autocorrection_scheme \<Rightarrow> bool" where
  "trigram_probs_nonneg s = (\<forall>k p. prob_of_trigram s k = Some p \<longrightarrow> 0 \<le> p)"

text \<open>The feedback entry of a pair, if there is one.\<close>

definition feedback_entry ::
  "'a hybrid_autocorrection_scheme \<Rightarrow> string \<Rightarrow> string \<Rightarrow> feedback option" where
  "feedback_entry s original_word suggestion =
     (case user_feedback s original_word of None \<Rightarrow> None | Some per_word \<Rightarrow> per_word suggestion)"

text \<open>The call returned a value; it did not raise.\<close>

definition returns :: "error + 'a \<Rightarrow> bool" where
  "returns r = (case r of Inl err \<Rightarrow> False | Inr v \<Rightarrow> True)"

text \<open>\<open>n\<close> acceptances of the same suggestion, recorded one after the other.\<close>

definition record_acceptances ::
  "'a hybrid_autocorrection_scheme \<Rightarrow> string \<Rightarrow> string \<Rightarrow> nat \<Rightarrow> 'a hybrid_autocorrection_scheme" where
  "record_acceptances s original_word suggested_word n =
     ((\<lambda>t. record_user_feedback t original_word suggested_word True) ^^ n) s"

section \<open>Example engines\<close>

text \<open>
  A six-token corpus with one repeated token; the engines built from it with no saved
  files; a SymSpell dictionary that knows \<open>the\<close> and, as \<open>include_unknown=True\<close> makes
  it do, answers an unknown word with that word and count 0. A second corpus of six
  one-letter tokens.
\<close>

definition example_words :: "string list" where
  "example_words = [''the'', ''cat'', ''sat'', ''on'', ''the'', ''mat'']"

definition example_hybrid :: hybrid_autocorrection where
  "example_hybrid = hybrid_init example_words None"

definition example_enhanced :: enhanced_autocorrection where
  "example_enhanced = enhanced_init {''the''} (\<lambda>w. [(w, 0)]) example_words None None"

definition six_words :: "string list" where
  "six_words = [''a'', ''b'', ''c'', ''d'', ''e'', ''f'']"

section \<open>Candidate generation: membership and lengths\<close>

lemma edit1_replace_length: "e \<in> set (edit1_replace w) \<Longrightarrow> length e = length w"
  by (auto simp: edit1_replace_def splits_def)

lemma edit1_insert_length: "e \<in> set (edit1_insert w) \<Longrightarrow> length e = length w + 1"
  by (auto simp: edit1_insert_def splits_def)

lemma edit1_delete_length: "e \<in> set (edit1_delete w) \<Longrightarrow> length e + 1 = length w"
  by (auto simp: edit1_delete_def splits_def)

lemma edit1_swap_length: "e \<in> set (edit1_swap w) \<Longrightarrow> length e = length w"
  by (auto simp: edit1_swap_def splits_def)

lemma edit1_length:
  "e \<in> set (edit1 w) \<Longrightarrow>
     length e + 1 = length w \<or> length e = length w \<or> length e = length w + 1"
  by (auto simp: edit1_def
      dest: edit1_replace_length edit1_insert_length edit1_delete_length edit1_swap_length)

text \<open>Replacing a letter by a letter of the alphabet at any position stays in \<open>edit1\<close>.\<close>

lemma replace_in_edit1_replace:
  assumes "c \<in> set letter"
  shows "l @ [c] @ r \<in> set (edit1_replace (l @ [d] @ r))"
proof -
  have s: "(l, d # r) \<in> set (splits (l @ d # r))"
    unfolding splits_def by (auto intro!: image_eqI[of _ _ "length l"])
  show ?thesis unfolding edit1_replace_def
    apply simp
    apply (rule bexI[OF _ s])
    using assms by auto
qed

lemma word_in_edit1_replace:
  assumes "w \<noteq> []" and "hd w \<in> set letter"
  shows "w \<in> set (edit1_replace w)"
proof -
  from assms(1) have e: "w = [] @ [hd w] @ tl w" by simp
  show ?thesis
    using replace_in_edit1_replace[OF assms(2), of "[]" "tl w" "hd w"] e by simp
qed

text \<open>
  C10. For a non-empty word of lowercase ASCII letters, \<open>edit1(word)\<close> contains the
  word itself (a letter replaced by itself), and every string of \<open>edit1(word)\<close> is one
  shorter than the word, as long as it, or one longer.
\<close>

theorem edit1_contains_word_and_lengths:
  assumes "word \<noteq> []" and "set word \<subseteq> set letter"
  shows "word \<in> set (edit1 word) \<and>
         (\<forall>e \<in> set (edit1 word).
            len e = len word - 1 \<or> len e = len word \<or> len e = len word + 1)"
proof
  from assms have "hd word \<in> set letter" by (cases word) auto
  with assms(1) show "word \<in> set (edit1 word)"
    by (simp add: edit1_def word_in_edit1_replace)
next
  show "\<forall>e \<in> set (edit1 word).
          len e = len word - 1 \<or> len e = len word \<or> len e = len word + 1"
    using edit1_length[of _ word] by (fastforce simp: len_def)
qed

theorem edit1_contains_word_and_lengths_witness:
  "''cat'' \<noteq> [] \<and> set ''cat'' \<subseteq> set letter \<and> ''cat'' \<in> set (edit1 ''cat'') \<and>
   len ` set (edit1 ''cat'') \<subseteq> {2, 3, 4}"
  using edit1_contains_word_and_lengths[of "''cat''"] by (auto simp: letter_def len_def)

section \<open>Structural score\<close>

lemma common_prefix_length_eq:
  "common_prefix_length a b = int (length (longest_common_prefix a b))"
  by (induction a b rule: common_prefix_length.induct) auto

text \<open>
  C4. \<open>custom_score\<close> classifies by the difference of the lengths. With \<open>d\<close> the
  Levenshtein distance and \<open>p\<close> the length of the longest common prefix: equal lengths
  give \<open>d * 1 + (length of the original - p)\<close>; a candidate one longer gives
  \<open>d * 2 + (length of the original - p)\<close>; a candidate one shorter gives \<open>d * 3\<close>; every
  other difference gives \<open>d * 4\<close>.
\<close>

theorem custom_score_classification:
  "custom_score candidate original =
     (let d = int (levenshtein candidate original);
          p = int (length (longest_common_prefix candidate original));
          delta = int (length candidate) - int (length original)
      in if delta = 0 then d * 1 + (int (length original) - p)
         else if delta = 1 then d * 2 + (int (length original) - p)
         else if delta = - 1 then d * 3
         else d * 4)"
  by (simp add: custom_score_def Let_def len_def editdistance_eval_def common_prefix_length_eq)

section \<open>Sorting and comprehensions\<close>

lemma set_insort_by: "set (insort_by key x xs) = insert x (set xs)"
  by (induction xs) auto

lemma length_insort_by: "length (insort_by key x xs) = Suc (length xs)"
  by (induction xs) auto

lemma set_list_sort: "set (list_sort key xs) = set xs"
  by (induction xs) (auto simp: list_sort_def set_insort_by)

lemma length_list_sort: "length (list_sort key xs) = length xs"
  by (induction xs) (auto simp: list_sort_def length_insort_by)

lemma comprehension_Inr:
  assumes "\<And>x. x \<in> set xs \<Longrightarrow> f x = Inr (g x)"
  shows "comprehension f xs = Inr (map g xs)"
  using assms by (induction xs) auto

lemma comprehension_length:
  "comprehension f xs = Inr ys \<Longrightarrow> length ys = length xs"
  by (induction xs arbitrary: ys) (auto split: sum.splits)

section \<open>The surviving candidates\<close>

lemma set_suggestions_of: "set (suggestions_of w) = set (edit1 w) \<union> set (edit2 w)"
  by (simp add: suggestions_of_def)

lemma distinct_best_guesses_of: "distinct (best_guesses_of s w)"
  by (simp add: best_guesses_of_def suggestions_of_def)

lemma set_best_guesses_of:
  "set (best_guesses_of s w) = (set (edit1 w) \<union> set (edit2 w)) \<inter> vocabulary s"
  by (auto simp: best_guesses_of_def set_suggestions_of)

lemma best_guesses_of_Nil:
  "best_guesses_of s w = [] \<longleftrightarrow> (\<forall>c \<in> set (edit1 w) \<union> set (edit2 w). c \<notin> vocabulary s)"
  using set_best_guesses_of[of s w] by (metis disjoint_iff set_empty)

lemma length_best_guesses_of:
  "length (best_guesses_of s w) = card ((set (edit1 w) \<union> set (edit2 w)) \<inter> vocabulary s)"
  using distinct_card[OF distinct_best_guesses_of[of s w]] by (simp add: set_best_guesses_of)

lemma edit2_length_bounds:
  assumes "e \<in> set (edit2 w)"
  shows "length w \<le> length e + 2 \<and> length e \<le> length w + 2"
proof -
  from assms obtain e1 where "e1 \<in> set (edit1 w)" "e \<in> set (edit1 e1)"
    by (auto simp: edit2_def)
  then show ?thesis using edit1_length[of e1 w] edit1_length[of e e1] by auto
qed

lemma candidates_length:
  assumes "c \<in> set (edit1 w) \<union> set (edit2 w)"
  shows "length w \<le> length c + 2 \<and> length c \<le> length w + 2"
  using assms edit1_length[of c w] edit2_length_bounds[of c w] by auto

section \<open>The probability tables\<close>

lemma total_count_length: "total_count xs = real (length xs)"
  unfolding total_count_def by (simp add: sum_list_distinct_conv_sum_set sum_count_set)

lemma dom_probabilities: "dom (probabilities xs) = set xs"
  by (auto simp: probabilities_def split: if_splits)

lemma probabilities_pos:
  assumes "probabilities xs k = Some p"
  shows "0 < p"
proof -
  from assms have k: "k \<in> set xs" and p: "p = real (count_list xs k) / total_count xs"
    by (auto simp: probabilities_def split: if_splits)
  from k have "0 < count_list xs k" using count_list_0_iff[of xs k] by auto
  moreover from k have "0 < length xs" by (cases xs) auto
  ultimately show ?thesis using p by (simp add: total_count_length)
qed


section \<open>Invariants of the engine state\<close>

text \<open>
  Both hold when an engine has been constructed and after every mutator, so they hold
  in every state a caller can reach.
\<close>

lemma vocabulary_has_probs_autocorrection_init: "vocabulary_has_probs (autocorrection_init ws)"
  by (simp add: vocabulary_has_probs_def autocorrection_init_def dom_probabilities)

lemma vocabulary_has_probs_hybrid_init: "vocabulary_has_probs (hybrid_init ws f)"
  by (simp add: vocabulary_has_probs_def hybrid_init_def build_vocabulary_def
      load_custom_words_def dom_probabilities split: option.splits)

lemma vocabulary_has_probs_enhanced_init: "vocabulary_has_probs (enhanced_init d l ws f g)"
  by (simp add: vocabulary_has_probs_def enhanced_init_def build_vocabulary_def
      load_custom_words_def load_shortcuts_def dom_probabilities split: option.splits)

lemma vocabulary_has_probs_add_custom_word:
  "vocabulary_has_probs s \<Longrightarrow> vocabulary_has_probs (add_custom_word s w)"
  by (auto simp: vocabulary_has_probs_def add_custom_word_def Let_def)

lemma vocabulary_has_probs_add_shortcut:
  "vocabulary_has_probs s \<Longrightarrow> vocabulary_has_probs (add_shortcut s k w)"
  by (auto simp: vocabulary_has_probs_def add_shortcut_def add_custom_word_def Let_def)

lemma vocabulary_has_probs_remove_shortcut:
  "vocabulary_has_probs s \<Longrightarrow> vocabulary_has_probs (snd (remove_shortcut s k))"
  by (auto simp: vocabulary_has_probs_def remove_shortcut_def Let_def)

lemma vocabulary_has_probs_record_user_feedback:
  "vocabulary_has_probs s \<Longrightarrow> vocabulary_has_probs (record_user_feedback s a b c)"
  by (auto simp: vocabulary_has_probs_def record_user_feedback_def Let_def)

lemma trigram_probs_nonneg_if:
  assumes "prob_of_trigram s = probabilities xs"
  shows "trigram_probs_nonneg s"
  unfolding trigram_probs_nonneg_def assms
  using probabilities_pos[of xs] by (meson less_imp_le)

lemma trigram_probs_nonneg_build: "trigram_probs_nonneg (build_vocabulary s ws)"
  by (rule trigram_probs_nonneg_if[of _ "trigrams ws"]) (simp add: build_vocabulary_def)

lemma trigram_probs_nonneg_hybrid_init: "trigram_probs_nonneg (hybrid_init ws f)"
  by (rule trigram_probs_nonneg_if[of _ "trigrams ws"])
    (simp add: hybrid_init_def build_vocabulary_def load_custom_words_def split: option.splits)

lemma trigram_probs_nonneg_enhanced_init: "trigram_probs_nonneg (enhanced_init d l ws f g)"
  by (rule trigram_probs_nonneg_if[of _ "trigrams ws"])
    (simp add: enhanced_init_def build_vocabulary_def load_custom_words_def load_shortcuts_def
       split: option.splits)

lemma trigram_probs_nonneg_add_custom_word:
  "trigram_probs_nonneg s \<Longrightarrow> trigram_probs_nonneg (add_custom_word s w)"
  by (simp add: trigram_probs_nonneg_def add_custom_word_def Let_def)

lemma trigram_probs_nonneg_record_user_feedback:
  "trigram_probs_nonneg s \<Longrightarrow> trigram_probs_nonneg (record_user_feedback s a b c)"
  by (simp add: trigram_probs_nonneg_def record_user_feedback_def Let_def)

lemma trigram_probs_nonneg_add_shortcut:
  "trigram_probs_nonneg s \<Longrightarrow> trigram_probs_nonneg (add_shortcut s a b)"
  by (simp add: trigram_probs_nonneg_def add_shortcut_def add_custom_word_def Let_def)

lemma trigram_probs_nonneg_remove_shortcut:
  "trigram_probs_nonneg s \<Longrightarrow> trigram_probs_nonneg (snd (remove_shortcut s a))"
  by (simp add: trigram_probs_nonneg_def remove_shortcut_def Let_def)

lemma dict_item_probs:
  "vocabulary_has_probs s \<Longrightarrow> w \<in> vocabulary s \<Longrightarrow>
     dict_item (prob_of_word s) w = Inr (the (prob_of_word s w))"
  by (auto simp: vocabulary_has_probs_def dict_item_def split: option.splits)

lemma tuple_comprehension:
  assumes "vocabulary_has_probs s" and "set xs \<subseteq> vocabulary s"
  shows "comprehension (\<lambda>w. case dict_item (prob_of_word s) w of
                                Inl e \<Rightarrow> Inl e | Inr p \<Rightarrow> Inr (g w p)) xs
           = Inr (map (\<lambda>w. g w (the (prob_of_word s w))) xs)"
  using assms by (intro comprehension_Inr) (auto simp: dict_item_probs)

section \<open>Facts about the example engines\<close>

lemma prob_of_word_example_hybrid: "prob_of_word example_hybrid = probabilities example_words"
  by (simp add: example_hybrid_def hybrid_init_def build_vocabulary_def load_custom_words_def)

lemma vocabulary_example_hybrid: "vocabulary example_hybrid = set example_words"
  by (simp add: example_hybrid_def hybrid_init_def build_vocabulary_def load_custom_words_def)

lemma prob_of_word_example_enhanced: "prob_of_word example_enhanced = probabilities example_words"
  by (simp add: example_enhanced_def enhanced_init_def build_vocabulary_def load_custom_words_def
      load_shortcuts_def)

lemma vocabulary_example_enhanced: "vocabulary example_enhanced = set example_words"
  by (simp add: example_enhanced_def enhanced_init_def build_vocabulary_def load_custom_words_def
      load_shortcuts_def)


lemma vocabulary_six_words: "vocabulary (autocorrection_init six_words) = set six_words"
  by (simp add: autocorrection_init_def)

lemma six_words_candidates:
  "(set (edit1 ''g'') \<union> set (edit2 ''g'')) \<inter> set six_words = set six_words"
proof -
  have "[c] \<in> set (edit1 ''g'')" if "c \<in> set letter" for c
    using replace_in_edit1_replace[OF that, of "[]" "[]" "CHR ''g''"] by (simp add: edit1_def)
  then have "set six_words \<subseteq> set (edit1 ''g'')"
    by (simp add: six_words_def letter_def)
  then show ?thesis by blast
qed

lemma six_words_card:
  "card ((set (edit1 ''g'') \<union> set (edit2 ''g'')) \<inter> vocabulary (autocorrection_init six_words)) = 6"
proof -
  have "distinct six_words" by (simp add: six_words_def)
  then have "card (set six_words) = length six_words" by (rule distinct_card)
  then have "card (set six_words) = 6" by (simp add: six_words_def)
  then show ?thesis unfolding vocabulary_six_words six_words_candidates .
qed

lemma six_words_facts:
  "vocabulary_has_probs (autocorrection_init six_words)"
  "''g'' \<notin> vocabulary (autocorrection_init six_words)"
  "best_guesses_of (autocorrection_init six_words) ''g'' \<noteq> []"
proof -
  show "vocabulary_has_probs (autocorrection_init six_words)"
    by (rule vocabulary_has_probs_autocorrection_init)
  show "''g'' \<notin> vocabulary (autocorrection_init six_words)"
    unfolding vocabulary_six_words by (simp add: six_words_def)
  have e: "set (best_guesses_of (autocorrection_init six_words) ''g'') = set six_words"
    by (simp add: set_best_guesses_of vocabulary_six_words six_words_candidates)
  show "best_guesses_of (autocorrection_init six_words) ''g'' \<noteq> []"
  proof
    assume "best_guesses_of (autocorrection_init six_words) ''g'' = []"
    then have "set six_words = {}" using e by simp
    then show False by (simp add: six_words_def)
  qed
qed

section \<open>A word that is already in the vocabulary\<close>

lemma correct_spelling_enhanced_ignores_vocabulary:
  "correct_spelling_enhanced (s\<lparr>vocabulary := V, prob_of_word := P\<rparr>) previous_words word
     = correct_spelling_enhanced s previous_words word"
  by (simp add: correct_spelling_enhanced_def get_shortcut_expansion_def)

text \<open>
  C1, as the code has it. For a token \<open>t\<close> of the vocabulary with stored probability
  \<open>p\<close>, \<open>correct_spelling_hybrid\<close> returns the single tuple \<open>(t, p, 1.0)\<close> and the basic
  engine's \<open>correct_spelling_with_context\<close> the single tuple \<open>(t, p, bigram probability
  or 0)\<close>, whatever the preceding tokens; no candidate is generated. The basic
  \<open>correct_spelling\<close> returns nothing (\<open>None\<close>). \<open>correct_spelling_enhanced\<close> reads
  neither the vocabulary nor the stored probabilities: on a word of the SymSpell
  dictionary that is no shortcut with a non-empty expansion it returns
  \<open>(t, 1.0, 1.0, "SymSpellPy")\<close>.
\<close>

theorem vocabulary_word_returned:
  assumes "t \<in> vocabulary h" and "prob_of_word h t = Some p"
    and "t \<in> vocabulary b" and "prob_of_word b t = Some q"
  shows "correct_spelling_hybrid h previous_words t = Inr [Tuple3 t p 1] \<and>
         correct_spelling_with_context b previous_word t
           = Inr [Tuple3 t q (dict_get (prob_of_bigram b) (previous_word, t) 0)] \<and>
         correct_spelling b t = Inr None \<and>
         correct_spelling_enhanced (e\<lparr>vocabulary := V, prob_of_word := P\<rparr>) previous_words t
           = correct_spelling_enhanced e previous_words t \<and>
         (get_shortcut_expansion e t \<in> {None, Some []} \<and> t \<in> sym_words e \<longrightarrow>
            correct_spelling_enhanced e previous_words t = [Tuple4 t 1 1 ''SymSpellPy''])"
  using assms
  by (auto simp: correct_spelling_hybrid_def correct_spelling_with_context_def
      correct_spelling_def dict_item_def correct_spelling_enhanced_def
      get_shortcut_expansion_def)

theorem vocabulary_word_returned_witness:
  "''the'' \<in> vocabulary example_hybrid \<and> prob_of_word example_hybrid ''the'' = Some (1 / 3) \<and>
   ''the'' \<in> vocabulary (autocorrection_init example_words) \<and>
   prob_of_word (autocorrection_init example_words) ''the'' = Some (1 / 3) \<and>
   correct_spelling_hybrid example_hybrid [] ''the'' = Inr [Tuple3 ''the'' (1 / 3) 1] \<and>
   correct_spelling_with_context (autocorrection_init example_words) ''on'' ''the''
     = Inr [Tuple3 ''the'' (1 / 3) (1 / 5)] \<and>
   correct_spelling (autocorrection_init example_words) ''the'' = Inr None \<and>
   get_shortcut_expansion example_enhanced ''the'' = None \<and> ''the'' \<in> sym_words example_enhanced \<and>
   correct_spelling_enhanced example_enhanced [] ''the'' = [Tuple4 ''the'' 1 1 ''SymSpellPy'']"
proof -
  have v: "''the'' \<in> vocabulary example_hybrid"
    by (simp add: vocabulary_example_hybrid example_words_def)
  have p: "prob_of_word example_hybrid ''the'' = Some (1 / 3)"
    by (simp add: prob_of_word_example_hybrid probabilities_def example_words_def total_count_length)
  have v': "''the'' \<in> vocabulary (autocorrection_init example_words)"
    by (simp add: autocorrection_init_def example_words_def)
  have p': "prob_of_word (autocorrection_init example_words) ''the'' = Some (1 / 3)"
    by (simp add: autocorrection_init_def probabilities_def example_words_def total_count_length)
  have b: "dict_get (prob_of_bigram (autocorrection_init example_words)) (''on'', ''the'') 0 = 1 / 5"
    by (simp add: autocorrection_init_def probabilities_def example_words_def total_count_length
        bigrams_def dict_get_def)
  have g: "get_shortcut_expansion example_enhanced ''the'' = None"
    and w: "''the'' \<in> sym_words example_enhanced"
    by (simp_all add: get_shortcut_expansion_def example_enhanced_def enhanced_init_def
        build_vocabulary_def load_custom_words_def load_shortcuts_def)
  show ?thesis
    using v p v' p' g w
      vocabulary_word_returned[OF v p v' p', where previous_words = "[]"
        and previous_word = "''on''" and e = example_enhanced and V = "{}" and P = Map.empty]
    by (simp add: b)
qed

text \<open>
  C1 as stated fails. \<open>the\<close> is in the vocabulary of the example engine with stored
  probability 1/3, yet \<open>correct_spelling_enhanced([], "the")\<close> reports probability 1.0,
  and the basic \<open>correct_spelling("the")\<close> returns \<open>None\<close>.
\<close>

theorem enhanced_reports_unit_probability:
  "''the'' \<in> vocabulary example_enhanced \<and>
   prob_of_word example_enhanced ''the'' = Some (1 / 3) \<and>
   correct_spelling_enhanced example_enhanced [] ''the'' = [Tuple4 ''the'' 1 1 ''SymSpellPy''] \<and>
   correct_spelling (autocorrection_init example_words) ''the'' = Inr None"
proof -
  have v: "''the'' \<in> vocabulary example_enhanced"
    by (simp add: vocabulary_example_enhanced example_words_def)
  have p: "prob_of_word example_enhanced ''the'' = Some (1 / 3)"
    by (simp add: prob_of_word_example_enhanced probabilities_def example_words_def total_count_length)
  have r: "correct_spelling_enhanced example_enhanced [] ''the'' = [Tuple4 ''the'' 1 1 ''SymSpellPy'']"
    by (simp add: correct_spelling_enhanced_def get_shortcut_expansion_def example_enhanced_def
        enhanced_init_def build_vocabulary_def load_custom_words_def load_shortcuts_def)
  have n: "correct_spelling (autocorrection_init example_words) ''the'' = Inr None"
    by (simp add: correct_spelling_def autocorrection_init_def example_words_def)
  show ?thesis using v p r n by simp
qed

section \<open>Shortcuts come first\<close>

text \<open>
  C2, as the code has it. When the shortcut table maps the (lower-cased) word to a
  non-empty expansion, \<open>correct_spelling_enhanced\<close> returns exactly one tuple, the
  expansion with both probabilities 1.0, whatever the preceding tokens and whatever the
  vocabulary holds; SymSpell is not asked.
\<close>

theorem shortcut_short_circuits:
  assumes "get_shortcut_expansion s word = Some expansion" and "expansion \<noteq> []"
  shows "correct_spelling_enhanced s previous_words word
           = [Tuple4 expansion 1 1 ''Shortcut expansion''] \<and>
         correct_spelling_enhanced (s\<lparr>vocabulary := V\<rparr>) previous_words word
           = [Tuple4 expansion 1 1 ''Shortcut expansion'']"
  using assms by (simp add: correct_spelling_enhanced_def get_shortcut_expansion_def)

theorem shortcut_short_circuits_witness:
  "get_shortcut_expansion (add_shortcut example_enhanced ''the'' ''because'') ''the''
     = Some (lower ''because'') \<and>
   lower ''because'' \<noteq> [] \<and>
   ''the'' \<in> vocabulary (add_shortcut example_enhanced ''the'' ''because'') \<and>
   correct_spelling_enhanced (add_shortcut example_enhanced ''the'' ''because'') [] ''the''
     = [Tuple4 ''because'' 1 1 ''Shortcut expansion'']"
proof -
  let ?s = "add_shortcut example_enhanced ''the'' ''because''"
  have l: "lower ''because'' = ''because''" by (simp add: lower_def lower_char_def)
  have g: "get_shortcut_expansion ?s ''the'' = Some (lower ''because'')"
    by (simp add: get_shortcut_expansion_def add_shortcut_def add_custom_word_def Let_def)
  have n: "lower ''because'' \<noteq> []" by (simp add: l)
  have v: "''the'' \<in> vocabulary ?s"
    by (simp add: add_shortcut_def add_custom_word_def Let_def vocabulary_example_enhanced
        example_words_def)
  show ?thesis
    using g n v shortcut_short_circuits[OF g n, of "[]" "{}"] by (simp add: l)
qed

text \<open>
  C2 as stated fails on a shortcut registered with the empty expansion: \<open>is_shortcut\<close>
  holds, the truthiness test on the expansion fails, and the word goes on to SymSpell.
\<close>

theorem empty_expansion_not_short_circuited:
  "is_shortcut (add_shortcut example_enhanced ''hlo'' []) ''hlo'' \<and>
   get_shortcut_expansion (add_shortcut example_enhanced ''hlo'' []) ''hlo'' = Some [] \<and>
   correct_spelling_enhanced (add_shortcut example_enhanced ''hlo'' []) [] ''hlo''
     = [Tuple4 ''hlo'' 0 1 ''SymSpellPy'']"
proof -
  let ?s = "add_shortcut example_enhanced ''hlo'' []"
  have l: "lower ''hlo'' = ''hlo''" "lower [] = []" by (simp_all add: lower_def lower_char_def)
  have sc: "shortcuts ?s = [''hlo'' \<mapsto> []]"
    by (simp add: add_shortcut_def add_custom_word_def Let_def l example_enhanced_def
        enhanced_init_def build_vocabulary_def load_custom_words_def load_shortcuts_def)
  have sw: "sym_words ?s = {''the''}" "sym_lookup ?s = (\<lambda>w. [(w, 0)])"
    by (simp_all add: add_shortcut_def add_custom_word_def Let_def example_enhanced_def
        enhanced_init_def build_vocabulary_def load_custom_words_def load_shortcuts_def)
  show ?thesis
    by (simp add: is_shortcut_def get_shortcut_expansion_def correct_spelling_enhanced_def sc sw l)
qed

section \<open>How many suggestions\<close>

lemma correct_spelling_all_guesses:
  assumes "vocabulary_has_probs s" and "word \<notin> vocabulary s" and "best_guesses_of s word \<noteq> []"
  shows "correct_spelling s word =
           Inr (Some (map (\<lambda>w. Tuple2 w (the (prob_of_word s w)))
                        (list_sort (\<lambda>w. combined_score s w word) (best_guesses_of s word))))"
proof -
  have "set (list_sort (\<lambda>w. combined_score s w word) (best_guesses_of s word)) \<subseteq> vocabulary s"
    by (simp add: set_list_sort set_best_guesses_of)
  from tuple_comprehension[OF assms(1) this, of Tuple2] assms(2,3)
  show ?thesis by (simp add: correct_spelling_def Let_def)
qed

lemma correct_spelling_with_context_all_guesses:
  assumes "vocabulary_has_probs s" and "word \<notin> vocabulary s" and "best_guesses_of s word \<noteq> []"
  shows "correct_spelling_with_context s previous_word word =
           Inr (map (\<lambda>w. Tuple3 w (the (prob_of_word s w))
                            (dict_get (prob_of_bigram s) (previous_word, w) 0))
                  (list_sort (context_score s previous_word word) (best_guesses_of s word)))"
proof -
  have "set (list_sort (context_score s previous_word word) (best_guesses_of s word)) \<subseteq> vocabulary s"
    by (simp add: set_list_sort set_best_guesses_of)
  from tuple_comprehension[OF assms(1) this,
      of "\<lambda>w p. Tuple3 w p (dict_get (prob_of_bigram s) (previous_word, w) 0)"] assms(2,3)
  show ?thesis by (simp add: correct_spelling_with_context_def Let_def)
qed

lemma correct_spelling_hybrid_length:
  "correct_spelling_hybrid s previous_words word = Inr r \<Longrightarrow> length r \<le> 5"
  by (auto simp: correct_spelling_hybrid_def Let_def dict_item_def
      split: if_splits option.splits dest!: comprehension_length)

lemma correct_spelling_hybrid_returns:
  assumes "vocabulary_has_probs s"
  shows "\<exists>r. correct_spelling_hybrid s previous_words word = Inr r"
proof (cases "word \<in> vocabulary s")
  case True
  with assms show ?thesis
    by (simp add: correct_spelling_hybrid_def dict_item_probs)
next
  case False
  let ?sorted = "if should_use_context word previous_words
                 then list_sort (\<lambda>w. context_aware_score s w word previous_words)
                        (best_guesses_of s word)
                 else list_sort (\<lambda>w. combined_score s w word) (best_guesses_of s word)"
  have "set ?sorted \<subseteq> vocabulary s"
    by (simp add: set_list_sort set_best_guesses_of)
  then have "set (take 5 ?sorted) \<subseteq> vocabulary s"
    using set_take_subset[of 5 ?sorted] by blast
  from tuple_comprehension[OF assms this,
      of "\<lambda>w p. Tuple3 w p (get_context_probability s w previous_words)"] False
  show ?thesis by (simp add: correct_spelling_hybrid_def Let_def)
qed

lemma correct_spelling_enhanced_length:
  "length (correct_spelling_enhanced s previous_words word) \<le> 5"
  by (simp add: correct_spelling_enhanced_def Let_def split: option.splits)

text \<open>
  C3, as the code has it. \<open>correct_spelling_enhanced\<close> returns at most 5 tuples, and so
  does \<open>correct_spelling_hybrid\<close> whenever it returns, which it does in every state
  where each vocabulary word has a stored probability. The basic engine has no cap:
  on a word outside the vocabulary with a surviving candidate, \<open>correct_spelling\<close> and
  \<open>correct_spelling_with_context\<close> return one tuple for each distinct vocabulary member
  of \<open>edit1 \<union> edit2\<close>.
\<close>

theorem suggestion_count:
  "length (correct_spelling_enhanced e previous_words word) \<le> 5 \<and>
   (case correct_spelling_hybrid h previous_words word of
      Inl err \<Rightarrow> True | Inr r \<Rightarrow> length r \<le> 5) \<and>
   (vocabulary_has_probs h \<longrightarrow> returns (correct_spelling_hybrid h previous_words word)) \<and>
   (vocabulary_has_probs b \<and> word \<notin> vocabulary b \<and> best_guesses_of b word \<noteq> [] \<longrightarrow>
      map_sum id (map_option length) (correct_spelling b word)
        = Inr (Some (card ((set (edit1 word) \<union> set (edit2 word)) \<inter> vocabulary b))) \<and>
      map_sum id length (correct_spelling_with_context b previous_word word)
        = Inr (card ((set (edit1 word) \<union> set (edit2 word)) \<inter> vocabulary b)))"
proof -
  have 1: "length (correct_spelling_enhanced e previous_words word) \<le> 5"
    by (rule correct_spelling_enhanced_length)
  have 2: "case correct_spelling_hybrid h previous_words word of
             Inl err \<Rightarrow> True | Inr r \<Rightarrow> length r \<le> 5"
    using correct_spelling_hybrid_length[of h previous_words word] by (auto split: sum.splits)
  have 3: "returns (correct_spelling_hybrid h previous_words word)" if "vocabulary_has_probs h"
    using correct_spelling_hybrid_returns[OF that, of previous_words word]
    by (auto simp: returns_def)
  have 4: "map_sum id (map_option length) (correct_spelling b word)
        = Inr (Some (card ((set (edit1 word) \<union> set (edit2 word)) \<inter> vocabulary b)))"
    if "vocabulary_has_probs b" "word \<notin> vocabulary b" "best_guesses_of b word \<noteq> []"
    by (simp add: correct_spelling_all_guesses[OF that] length_list_sort length_best_guesses_of)
  have 5: "map_sum id length (correct_spelling_with_context b previous_word word)
        = Inr (card ((set (edit1 word) \<union> set (edit2 word)) \<inter> vocabulary b))"
    if "vocabulary_has_probs b" "word \<notin> vocabulary b" "best_guesses_of b word \<noteq> []"
    by (simp add: correct_spelling_with_context_all_guesses[OF that] length_list_sort
        length_best_guesses_of)
  show ?thesis using 1 2 3 4 5 by blast
qed

theorem suggestion_count_witness:
  "vocabulary_has_probs example_hybrid \<and>
   returns (correct_spelling_hybrid example_hybrid [''on'', ''the''] ''bat'') \<and>
   vocabulary_has_probs (autocorrection_init six_words) \<and>
   ''g'' \<notin> vocabulary (autocorrection_init six_words) \<and>
   best_guesses_of (autocorrection_init six_words) ''g'' \<noteq> [] \<and>
   map_sum id length (correct_spelling_with_context (autocorrection_init six_words) ''a'' ''g'')
     = Inr 6"
proof -
  have i: "vocabulary_has_probs example_hybrid"
    unfolding example_hybrid_def by (rule vocabulary_has_probs_hybrid_init)
  note t = suggestion_count[where e = example_enhanced and h = example_hybrid
        and previous_words = "[''on'', ''the'']" and b = "autocorrection_init six_words"
        and previous_word = "''a''"]
  from t[of "''bat''"] i
  have r: "returns (correct_spelling_hybrid example_hybrid [''on'', ''the''] ''bat'')"
    by blast
  from t[of "''g''"] six_words_facts
  have "map_sum id length (correct_spelling_with_context (autocorrection_init six_words) ''a'' ''g'')
          = Inr (card ((set (edit1 ''g'') \<union> set (edit2 ''g''))
                   \<inter> vocabulary (autocorrection_init six_words)))"
    by blast
  then have c: "map_sum id length
                  (correct_spelling_with_context (autocorrection_init six_words) ''a'' ''g'') = Inr 6"
    unfolding six_words_card .
  from i r six_words_facts c show ?thesis by blast
qed

text \<open>
  C3 as stated fails on the basic engine: with the six one-letter words as vocabulary,
  \<open>correct_spelling("g")\<close> returns six tuples.
\<close>

theorem basic_engine_returns_six:
  "map_sum id (map_option length) (correct_spelling (autocorrection_init six_words) ''g'')
     = Inr (Some 6)"
proof -
  have "map_sum id (map_option length) (correct_spelling (autocorrection_init six_words) ''g'')
      = Inr (Some (length (best_guesses_of (autocorrection_init six_words) ''g'')))"
    unfolding correct_spelling_all_guesses[OF six_words_facts]
    by (simp add: length_list_sort)
  then show ?thesis unfolding length_best_guesses_of six_words_card .
qed

section \<open>No suggestion found\<close>

text \<open>
  C6. For a word that is not in the vocabulary and has no vocabulary member in
  \<open>edit1(word) \<union> edit2(word)\<close>, the basic engine (both entry points) and the hybrid
  engine return the single tuple \<open>(word, 0, 0)\<close>, as a value: nothing is raised.
\<close>

theorem no_suggestion_found:
  assumes "word \<notin> vocabulary s"
    and "\<forall>c \<in> set (edit1 word) \<union> set (edit2 word). c \<notin> vocabulary s"
    and "word \<notin> vocabulary h"
    and "\<forall>c \<in> set (edit1 word) \<union> set (edit2 word). c \<notin> vocabulary h"
  shows "correct_spelling s word = Inr (Some [Tuple3 word 0 0]) \<and>
         correct_spelling_with_context s previous_word word = Inr [Tuple3 word 0 0] \<and>
         correct_spelling_hybrid h previous_words word = Inr [Tuple3 word 0 0]"
  using assms
  by (simp add: correct_spelling_def correct_spelling_with_context_def
      correct_spelling_hybrid_def best_guesses_of_Nil[symmetric])

theorem no_suggestion_found_witness:
  "''zzzzzzzz'' \<notin> vocabulary (autocorrection_init example_words) \<and>
   (set (edit1 ''zzzzzzzz'') \<union> set (edit2 ''zzzzzzzz''))
      \<inter> vocabulary (autocorrection_init example_words) = {} \<and>
   ''zzzzzzzz'' \<notin> vocabulary example_hybrid \<and>
   (set (edit1 ''zzzzzzzz'') \<union> set (edit2 ''zzzzzzzz'')) \<inter> vocabulary example_hybrid = {} \<and>
   correct_spelling (autocorrection_init example_words) ''zzzzzzzz''
     = Inr (Some [Tuple3 ''zzzzzzzz'' 0 0]) \<and>
   correct_spelling_with_context (autocorrection_init example_words) ''the'' ''zzzzzzzz''
     = Inr [Tuple3 ''zzzzzzzz'' 0 0] \<and>
   correct_spelling_hybrid example_hybrid [''on'', ''the''] ''zzzzzzzz''
     = Inr [Tuple3 ''zzzzzzzz'' 0 0]"
proof -
  have v1: "vocabulary (autocorrection_init example_words) = set example_words"
    by (simp add: autocorrection_init_def)
  have far: "c \<notin> set example_words"
    if "c \<in> set (edit1 ''zzzzzzzz'') \<union> set (edit2 ''zzzzzzzz'')" for c
    using candidates_length[OF that] by (auto simp: example_words_def)
  have notin: "''zzzzzzzz'' \<notin> set example_words" by (simp add: example_words_def)
  have h: "\<forall>c \<in> set (edit1 ''zzzzzzzz'') \<union> set (edit2 ''zzzzzzzz''). c \<notin> set example_words"
    using far by blast
  show ?thesis
    using no_suggestion_found[of "''zzzzzzzz''" "autocorrection_init example_words" example_hybrid
        "''the''" "[''on'', ''the'']"] notin h far
    unfolding v1 vocabulary_example_hybrid by auto
qed

section \<open>User feedback\<close>

lemma feedback_entry_record:
  "feedback_entry (record_user_feedback s ow sw b) ow sw =
     Some (let e = (case feedback_entry s ow sw of
                      None \<Rightarrow> \<lparr>accepted = 0, rejected = 0\<rparr> | Some e \<Rightarrow> e)
           in if b then e\<lparr>accepted := accepted e + 1\<rparr> else e\<lparr>rejected := rejected e + 1\<rparr>)"
  by (simp add: feedback_entry_def record_user_feedback_def Let_def split: option.splits)

lemma feedback_entry_acceptances:
  assumes "feedback_entry s ow sw = None \<or>
           feedback_entry s ow sw = Some \<lparr>accepted = 0, rejected = 0\<rparr>"
  shows "feedback_entry (record_acceptances s ow sw (Suc n)) ow sw =
           Some \<lparr>accepted = Suc n, rejected = 0\<rparr>"
proof (induction n)
  case 0
  show ?case using assms by (auto simp: record_acceptances_def feedback_entry_record)
next
  case (Suc n)
  have "record_acceptances s ow sw (Suc (Suc n)) =
          record_user_feedback (record_acceptances s ow sw (Suc n)) ow sw True"
    by (simp add: record_acceptances_def)
  then show ?case using Suc by (simp add: feedback_entry_record)
qed

lemma feedback_score_entry:
  "feedback_score s ow sw =
     (case feedback_entry s ow sw of
        None \<Rightarrow> Fin 0
      | Some fb \<Rightarrow>
          if accepted fb + rejected fb = 0 then Fin 0
          else np_scale 1.5 (np_neg (np_log (1 - acceptance_rate fb))))"
  by (simp add: feedback_score_def feedback_entry_def Let_def split: option.splits)

text \<open>
  C5. Start where the pair (original, suggestion) has no entry, or one with both
  counters 0, and record \<open>n \<ge> 1\<close> acceptances: the entry is \<open>(n, 0)\<close> and its acceptance
  rate is 1. One rejection more makes the entry \<open>(n, 1)\<close>, the acceptance rate strictly
  smaller, and the magnitude of the feedback score strictly smaller: the score was
  \<open>-ln(0) * 1.5\<close>, which NumPy evaluates to \<open>+inf\<close>, and becomes finite. In every state
  the feedback score is 0 when the pair has no entry or its counters sum to 0, and
  \<open>-ln(1 - acceptance rate) * 1.5\<close> otherwise.
\<close>

theorem feedback_monotonicity:
  assumes "feedback_entry s original suggestion = None \<or>
           feedback_entry s original suggestion = Some \<lparr>accepted = 0, rejected = 0\<rparr>"
    and "0 < n"
  shows
    "(let s1 = record_acceptances s original suggestion n;
          s2 = record_user_feedback s1 original suggestion False;
          fb1 = \<lparr>accepted = n, rejected = 0\<rparr>;
          fb2 = \<lparr>accepted = n, rejected = 1\<rparr>
      in feedback_entry s1 original suggestion = Some fb1 \<and>
         acceptance_rate fb1 = 1 \<and>
         feedback_entry s2 original suggestion = Some fb2 \<and>
         acceptance_rate fb2 < acceptance_rate fb1 \<and>
         np_lt (np_abs (feedback_score s2 original suggestion))
               (np_abs (feedback_score s1 original suggestion)) \<and>
         feedback_score s1 original suggestion = PInf \<and>
         feedback_score s original suggestion = Fin 0) \<and>
     feedback_score t ow sw =
       (case feedback_entry t ow sw of
          None \<Rightarrow> Fin 0
        | Some fb \<Rightarrow>
            if accepted fb + rejected fb = 0 then Fin 0
            else np_scale 1.5 (np_neg (np_log (1 - acceptance_rate fb))))"
proof -
  from assms(2) obtain m where n: "n = Suc m" by (cases n) auto
  let ?s1 = "record_acceptances s original suggestion n"
  let ?s2 = "record_user_feedback ?s1 original suggestion False"
  have e1: "feedback_entry ?s1 original suggestion = Some \<lparr>accepted = n, rejected = 0\<rparr>"
    unfolding n by (rule feedback_entry_acceptances[OF assms(1)])
  have e2: "feedback_entry ?s2 original suggestion = Some \<lparr>accepted = n, rejected = 1\<rparr>"
    by (simp add: feedback_entry_record e1)
  have r1: "acceptance_rate \<lparr>accepted = n, rejected = 0\<rparr> = 1"
    using assms(2) by (simp add: acceptance_rate_def)
  have r2: "acceptance_rate \<lparr>accepted = n, rejected = 1\<rparr> < 1"
    by (simp add: acceptance_rate_def)
  have f1: "feedback_score ?s1 original suggestion = PInf"
    using assms(2) by (simp add: feedback_score_entry e1 r1 np_log_def)
  have "0 < 1 - acceptance_rate \<lparr>accepted = n, rejected = 1\<rparr>" using r2 by simp
  then have "\<exists>x. feedback_score ?s2 original suggestion = Fin x"
    by (simp add: feedback_score_entry e2 np_log_def)
  then obtain x where "feedback_score ?s2 original suggestion = Fin x" by blast
  then have lt: "np_lt (np_abs (feedback_score ?s2 original suggestion))
                       (np_abs (feedback_score ?s1 original suggestion))"
    by (simp add: f1)
  have f0: "feedback_score s original suggestion = Fin 0"
    using assms(1) by (auto simp: feedback_score_entry)
  show ?thesis
    unfolding Let_def using e1 e2 r1 r2 lt f1 f0 feedback_score_entry[of t ow sw] by simp
qed

theorem feedback_monotonicity_witness:
  "feedback_entry example_hybrid ''teh'' ''the'' = None \<and> (0::nat) < 3 \<and>
   feedback_entry (record_acceptances example_hybrid ''teh'' ''the'' 3) ''teh'' ''the''
     = Some \<lparr>accepted = 3, rejected = 0\<rparr> \<and>
   acceptance_rate \<lparr>accepted = 3, rejected = 0\<rparr> = 1 \<and>
   acceptance_rate \<lparr>accepted = 3, rejected = 1\<rparr> = 3 / 4 \<and>
   feedback_score (record_acceptances example_hybrid ''teh'' ''the'' 3) ''teh'' ''the'' = PInf \<and>
   feedback_score
     (record_user_feedback (record_acceptances example_hybrid ''teh'' ''the'' 3)
        ''teh'' ''the'' False)
     ''teh'' ''the'' = Fin (1.5 * - ln (1 / 4))"
proof -
  have h: "feedback_entry example_hybrid ''teh'' ''the'' = None"
    by (simp add: feedback_entry_def example_hybrid_def hybrid_init_def build_vocabulary_def
        load_custom_words_def)
  then have h': "feedback_entry example_hybrid ''teh'' ''the'' = None \<or>
      feedback_entry example_hybrid ''teh'' ''the'' = Some \<lparr>accepted = 0, rejected = 0\<rparr>"
    by simp
  show ?thesis
    using h
      feedback_monotonicity[OF h', of 3
        "record_user_feedback (record_acceptances example_hybrid ''teh'' ''the'' 3)
           ''teh'' ''the'' False" "''teh''" "''the''"]
    by (simp add: Let_def acceptance_rate_def np_log_def)
qed

section \<open>Context probability\<close>

text \<open>
  C7. With \<open>n\<close> preceding tokens, \<open>get_context_probability\<close> returns the trigram
  probability of (second to last, last, word) when \<open>n \<ge> 2\<close> and that probability is not
  0; otherwise the bigram probability of (last, word) when \<open>n \<ge> 1\<close>; otherwise 0. A
  probability that the table does not hold is 0. The code tests the trigram
  probability for \<open>> 0\<close>, which is the same in every reachable state: the trigram table
  is written by \<open>build_vocabulary\<close> only, and holds positive quotients.
\<close>

theorem get_context_probability_cases:
  assumes "trigram_probs_nonneg s"
  shows "get_context_probability s word previous_words =
     (let n = length previous_words;
          trigram = dict_get (prob_of_trigram s)
                      (previous_words ! (n - 2), previous_words ! (n - 1), word) 0;
          bigram = dict_get (prob_of_bigram s) (previous_words ! (n - 1), word) 0
      in if 2 \<le> n \<and> trigram \<noteq> 0 then trigram
         else if 1 \<le> n then bigram
         else 0)"
proof -
  have "prob_of_trigram s k = Some p \<Longrightarrow> 0 \<le> p" for k p
    using assms unfolding trigram_probs_nonneg_def by blast
  then have nonneg: "0 \<le> dict_get (prob_of_trigram s) k 0" for k
    by (cases "prob_of_trigram s k") (simp_all add: dict_get_def)
  have pos: "0 < dict_get (prob_of_trigram s) k 0 \<longleftrightarrow> dict_get (prob_of_trigram s) k 0 \<noteq> 0"
    for k
    using nonneg[of k] by linarith
  have l: "previous_words \<noteq> [] \<Longrightarrow>
             last previous_words = previous_words ! (length previous_words - 1)"
    by (simp add: last_conv_nth)
  show ?thesis
  proof (cases "previous_words = []")
    case True
    then show ?thesis by (simp add: get_context_probability_def)
  next
    case False
    then have "1 \<le> length previous_words" by (cases previous_words) auto
    with False show ?thesis
      by (simp add: get_context_probability_def Let_def pos l)
  qed
qed

theorem get_context_probability_cases_witness:
  "trigram_probs_nonneg example_hybrid \<and>
   get_context_probability example_hybrid ''sat'' [''the'', ''cat''] = 1 / 4 \<and>
   get_context_probability example_hybrid ''cat'' [''on'', ''the''] = 1 / 5 \<and>
   get_context_probability example_hybrid ''cat'' [] = 0"
proof -
  have inv: "trigram_probs_nonneg example_hybrid"
    unfolding example_hybrid_def by (rule trigram_probs_nonneg_hybrid_init)
  have tri: "prob_of_trigram example_hybrid = probabilities (trigrams example_words)"
    and bi: "prob_of_bigram example_hybrid = probabilities (bigrams example_words)"
    by (simp_all add: example_hybrid_def hybrid_init_def build_vocabulary_def load_custom_words_def)
  show ?thesis
    using inv get_context_probability_cases[OF inv, of "''sat''" "[''the'', ''cat'']"]
      get_context_probability_cases[OF inv, of "''cat''" "[''on'', ''the'']"]
      get_context_probability_cases[OF inv, of "''cat''" "[]"]
    by (simp add: tri bi dict_get_def probabilities_def total_count_length trigrams_def bigrams_def
        example_words_def)
qed

section \<open>The shortcut table\<close>

text \<open>
  C8. \<open>remove_shortcut(short)\<close> returns \<open>True\<close> exactly when the table had a mapping for
  \<open>short\<close>; then that mapping, and nothing else, is gone. Otherwise it returns \<open>False\<close>
  and the state is unchanged. Adding a shortcut twice leaves the second expansion in
  the table. None of the three calls can raise.
\<close>

theorem remove_shortcut_spec:
  "fst (remove_shortcut s short) = is_shortcut s short \<and>
   (is_shortcut s short \<longrightarrow>
      snd (remove_shortcut s short) = s\<lparr>shortcuts := (shortcuts s)(lower short := None)\<rparr> \<and>
      \<not> is_shortcut (snd (remove_shortcut s short)) short) \<and>
   (\<not> is_shortcut s short \<longrightarrow> remove_shortcut s short = (False, s)) \<and>
   shortcuts (add_shortcut (add_shortcut s short full1) short full2)
     = (shortcuts s)(lower short \<mapsto> lower full2)"
  by (auto simp: remove_shortcut_def is_shortcut_def add_shortcut_def add_custom_word_def Let_def)

theorem remove_shortcut_spec_witness:
  "is_shortcut (add_shortcut example_enhanced ''bcz'' ''because'') ''bcz'' \<and>
   \<not> is_shortcut example_enhanced ''bcz'' \<and>
   fst (remove_shortcut (add_shortcut example_enhanced ''bcz'' ''because'') ''bcz'') \<and>
   \<not> is_shortcut
       (snd (remove_shortcut (add_shortcut example_enhanced ''bcz'' ''because'') ''bcz'')) ''bcz'' \<and>
   remove_shortcut example_enhanced ''bcz'' = (False, example_enhanced)"
  using remove_shortcut_spec[of "add_shortcut example_enhanced ''bcz'' ''because''" "''bcz''"]
    remove_shortcut_spec[of example_enhanced "''bcz''"]
  by (simp add: is_shortcut_def add_shortcut_def add_custom_word_def Let_def example_enhanced_def
      enhanced_init_def build_vocabulary_def load_custom_words_def load_shortcuts_def)

section \<open>The sum of the unigram probabilities\<close>






text \<open>The table stays finite: it starts with the distinct tokens and grows by one key at a time.\<close>

lemma finite_dom_build: "finite (dom (prob_of_word (build_vocabulary s ws)))"
  by (simp add: build_vocabulary_def dom_probabilities)

lemma finite_dom_add_custom_word:
  "finite (dom (prob_of_word s)) \<Longrightarrow> finite (dom (prob_of_word (add_custom_word s w)))"
  by (simp add: add_custom_word_def Let_def)








end
